theory Spec2Isabelle
  imports Complex_Main
begin

section \<open>Strings and character classes\<close>

text \<open>
  A Python \<^verbatim>\<open>str\<close> is a sequence of Unicode code points and \<^verbatim>\<open>len\<close> counts code
  points, so a string is a list of code points here. \<open>ustr\<close> reads a Basic Latin literal.
\<close>

type_synonym ustring = "nat list"

definition ustr :: "string \<Rightarrow> ustring" where
  "ustr s = map of_char s"

text \<open>
  The characters that \<^verbatim>\<open>str.strip()\<close>, \<^verbatim>\<open>str.split()\<close> and the pattern \<^verbatim>\<open>\s\<close>
  treat as whitespace (\<^verbatim>\<open>str.isspace\<close> of one character): U+0009..U+000D, U+001C..U+0020,
  U+0085, U+00A0, U+1680, U+2000..U+200A, U+2028, U+2029, U+202F, U+205F, U+3000.
\<close>

definition is_space :: "nat \<Rightarrow> bool" where
  "is_space c \<longleftrightarrow>
     (9 \<le> c \<and> c \<le> 13) \<or> (28 \<le> c \<and> c \<le> 32) \<or> c = 133 \<or> c = 160 \<or> c = 5760 \<or>
     (8192 \<le> c \<and> c \<le> 8202) \<or> c = 8232 \<or> c = 8233 \<or> c = 8239 \<or> c = 8287 \<or> c = 12288"

definition is_upper_az :: "nat \<Rightarrow> bool" where
  "is_upper_az c \<longleftrightarrow> 65 \<le> c \<and> c \<le> 90"

definition is_lower_az :: "nat \<Rightarrow> bool" where
  "is_lower_az c \<longleftrightarrow> 97 \<le> c \<and> c \<le> 122"

definition is_cjk :: "nat \<Rightarrow> bool" where
  \<comment> \<open>the class of U+4E00..U+9FFF\<close>
  "is_cjk c \<longleftrightarrow> 19968 \<le> c \<and> c \<le> 40959"

definition lower_az :: "nat \<Rightarrow> nat" where
  "lower_az c = (if is_upper_az c then c + 32 else c)"

text \<open>
  What the interpreter's Unicode tables say outside Basic Latin is not part of the
  repository; it is a parameter of the model. Inside Basic Latin (code points below 128)
  every function below is fixed: the decimal digits are \<^verbatim>\<open>0\<close>..\<^verbatim>\<open>9\<close>, lower-casing maps
  \<^verbatim>\<open>A\<close>..\<^verbatim>\<open>Z\<close> to \<^verbatim>\<open>a\<close>..\<^verbatim>\<open>z\<close>.
\<close>

record unicode_tables =
  decimal_ext :: "nat \<Rightarrow> bool"
  lower_ext :: "ustring \<Rightarrow> ustring"
  fold_ext :: "nat \<Rightarrow> nat \<Rightarrow> bool"

definition basic_latin :: unicode_tables where
  \<comment> \<open>tables that know nothing beyond Basic Latin\<close>
  "basic_latin = \<lparr> decimal_ext = (\<lambda>c. False), lower_ext = map lower_az, fold_ext = (\<lambda>p c. False) \<rparr>"

definition is_digit :: "unicode_tables \<Rightarrow> nat \<Rightarrow> bool" where
  \<comment> \<open>the class \<^verbatim>\<open>\d\<close>\<close>
  "is_digit U c = (if c < 128 then 48 \<le> c \<and> c \<le> 57 else decimal_ext U c)"

definition py_lower :: "unicode_tables \<Rightarrow> ustring \<Rightarrow> ustring" where
  \<comment> \<open>\<^verbatim>\<open>s.lower()\<close>\<close>
  "py_lower U s = (if list_all (\<lambda>c. c < 128) s then map lower_az s else lower_ext U s)"

definition ci_eq :: "unicode_tables \<Rightarrow> nat \<Rightarrow> nat \<Rightarrow> bool" where
  \<comment> \<open>a literal pattern character \<open>p\<close> against a text character \<open>c\<close> under \<^verbatim>\<open>re.IGNORECASE\<close>\<close>
  "ci_eq U p c \<longleftrightarrow>
     p = c \<or> (if p < 128 \<and> c < 128 then lower_az p = lower_az c else fold_ext U p c)"

definition strip :: "ustring \<Rightarrow> ustring" where
  \<comment> \<open>\<^verbatim>\<open>s.strip()\<close>\<close>
  "strip s = rev (dropWhile is_space (rev (dropWhile is_space s)))"

fun startswith :: "ustring \<Rightarrow> ustring \<Rightarrow> bool" where
  \<comment> \<open>\<^verbatim>\<open>s.startswith(k)\<close>\<close>
  "startswith s [] = True"
| "startswith [] (k # ks) = False"
| "startswith (c # cs) (k # ks) = (c = k \<and> startswith cs ks)"

definition endswith :: "ustring \<Rightarrow> ustring \<Rightarrow> bool" where
  "endswith s k = startswith (rev s) (rev k)"

fun contains :: "ustring \<Rightarrow> ustring \<Rightarrow> bool" where
  \<comment> \<open>\<^verbatim>\<open>k in s\<close>\<close>
  "contains [] k = (k = [])"
| "contains (c # cs) k = (startswith (c # cs) k \<or> contains cs k)"

text \<open>
  \<^verbatim>\<open>re.search(r'[...]$', s)\<close> for a character class: \<^verbatim>\<open>$\<close> matches at the end of the
  string and also just before a newline that ends the string.
\<close>

definition search_class_at_end :: "(nat \<Rightarrow> bool) \<Rightarrow> ustring \<Rightarrow> bool" where
  "search_class_at_end P s =
     (case rev s of
        [] \<Rightarrow> False
      | c # r \<Rightarrow> P c \<or> (c = 10 \<and> (case r of [] \<Rightarrow> False | d # _ \<Rightarrow> P d)))"

definition match_class_at_start :: "(nat \<Rightarrow> bool) \<Rightarrow> ustring \<Rightarrow> bool" where
  \<comment> \<open>\<^verbatim>\<open>re.match(r'^[...]', s)\<close>\<close>
  "match_class_at_start P s = (case s of [] \<Rightarrow> False | c # _ \<Rightarrow> P c)"

definition is_sentence_end :: "nat \<Rightarrow> bool" where
  \<comment> \<open>the class \<^verbatim>\<open>[.!?]\<close> with the ideographic full stop and the fullwidth \<^verbatim>\<open>!\<close> and \<^verbatim>\<open>?\<close>\<close>
  "is_sentence_end c \<longleftrightarrow> c = 46 \<or> c = 33 \<or> c = 63 \<or> c = 12290 \<or> c = 65281 \<or> c = 65311"

definition is_comma :: "nat \<Rightarrow> bool" where
  \<comment> \<open>\<^verbatim>\<open>,\<close> and the fullwidth comma\<close>
  "is_comma c \<longleftrightarrow> c = 44 \<or> c = 65292"

section \<open>Blocks\<close>

text \<open>
  A text block and a style span are dictionaries; a key may be missing, and the code reads
  most of them with \<^verbatim>\<open>get\<close> and a default. Font sizes are Python numbers; here they are
  exact rationals. The code compares sizes, which is exact in both, and takes the mean of
  two sizes when it merges. That mean is exact here; it is the code's value where the sum
  of the two floats and its half need no rounding, as for the sizes 12 and 18 of the
  scenarios. The rounding of floats, their infinities and \<^verbatim>\<open>OverflowError\<close> are not
  modelled, and no general property of the arithmetic of sizes is claimed below.
\<close>

record style =
  s_text :: "ustring option"
  s_is_italic :: "bool option"
  s_is_bold :: "bool option"

record block =
  b_page :: "nat option"
  b_text :: "ustring option"
  b_styles :: "style list option"
  b_avg_font_size :: "rat option"

definition get_or :: "'a option \<Rightarrow> 'a \<Rightarrow> 'a" where
  \<comment> \<open>\<^verbatim>\<open>d.get(key, default)\<close>\<close>
  "get_or v d = (case v of None \<Rightarrow> d | Some x \<Rightarrow> x)"

section \<open>TextProcessor\<close>

definition latin_heading :: "ustring \<Rightarrow> bool" where
  \<comment> \<open>\<^verbatim>\<open>re.match(r'^[A-Z][a-zA-Z\s]{10,}', text)\<close>\<close>
  "latin_heading t =
     (case t of
        [] \<Rightarrow> False
      | c # cs \<Rightarrow> is_upper_az c \<and> 10 \<le> length cs \<and>
          list_all (\<lambda>x. is_lower_az x \<or> is_upper_az x \<or> is_space x) (take 10 cs))"

definition cjk_heading :: "ustring \<Rightarrow> bool" where
  \<comment> \<open>two or more of U+4E00..U+9FFF at the start, then \<^verbatim>\<open>:\<close> or the fullwidth colon U+FF1A\<close>
  "cjk_heading t =
     (2 \<le> length (takeWhile is_cjk t) \<and>
      (case dropWhile is_cjk t of [] \<Rightarrow> False | c # _ \<Rightarrow> c = 58 \<or> c = 65306))"

definition numbered_marker :: "unicode_tables \<Rightarrow> ustring \<Rightarrow> bool" where
  \<comment> \<open>\<^verbatim>\<open>re.match(r'^\d+[\.\)]\s*', text)\<close>\<close>
  "numbered_marker U t =
     (takeWhile (is_digit U) t \<noteq> [] \<and>
      (case dropWhile (is_digit U) t of [] \<Rightarrow> False | c # _ \<Rightarrow> c = 46 \<or> c = 41))"

definition chapter_keywords :: "ustring list" where
  "chapter_keywords =
     [ustr ''Chapter'', ustr ''Part'', ustr ''Section'', [31532], [31456], [31680], [31687]]"

definition is_new_paragraph :: "unicode_tables \<Rightarrow> ustring \<Rightarrow> block \<Rightarrow> bool" where
  "is_new_paragraph U t b =
     (if get_or (b_avg_font_size b) 12 > 14 then True
      else if list_ex (\<lambda>s. get_or (s_is_bold s) False) (get_or (b_styles b) []) then True
      else if latin_heading t then True
      else if cjk_heading t then True
      else if numbered_marker U t then True
      else if list_ex (startswith t) chapter_keywords then True
      else False)"

definition should_merge_texts :: "ustring \<Rightarrow> ustring \<Rightarrow> bool" where
  "should_merge_texts text1' text2' =
     (let text1 = strip text1'; text2 = strip text2' in
      if search_class_at_end is_sentence_end text1 then False
      else if match_class_at_start is_upper_az text2 then
        (if search_class_at_end (\<lambda>c. is_comma c \<or> c = 45 \<or> is_space c) text1
            \<or> length text1 < 30
            \<or> \<not> list_ex is_sentence_end text1
         then True else False)
      else if match_class_at_start is_lower_az text2 then True
      else if search_class_at_end (\<lambda>c. c = 45 \<or> is_comma c \<or> is_space c) text1 then True
      else if length text1 < 50 \<and> length text2 < 50 then True
      else False)"

definition smart_join_texts :: "ustring \<Rightarrow> ustring \<Rightarrow> ustring" where
  "smart_join_texts text1' text2' =
     (let text1 = strip text1'; text2 = strip text2' in
      if endswith text1 [45] then butlast text1 @ text2
      else if endswith text1 [32] then text1 @ text2
      else if match_class_at_start is_lower_az text2 then text1 @ [32] @ text2
      else if search_class_at_end (\<lambda>c. is_comma c \<or> c = 59 \<or> c = 65307) text1
        then text1 @ [32] @ text2
      else text1 @ [32] @ text2)"

text \<open>
  The merge branch of the loop: the open paragraph takes the joined text, the styles of the
  incoming block appended to its own, and the mean of the two sizes; styles and size only
  when both dictionaries have the key.
\<close>

definition merge_block :: "block \<Rightarrow> block \<Rightarrow> ustring \<Rightarrow> block" where
  "merge_block cur b t =
     cur\<lparr> b_text := Some (smart_join_texts (get_or (b_text cur) []) t),
          b_styles := (case (b_styles b, b_styles cur) of
                         (Some sb, Some sc) \<Rightarrow> Some (sc @ sb)
                       | _ \<Rightarrow> b_styles cur),
          b_avg_font_size := (case (b_avg_font_size b, b_avg_font_size cur) of
                         (Some block_size, Some current_size) \<Rightarrow>
                            Some ((current_size + block_size) / 2)
                       | _ \<Rightarrow> b_avg_font_size cur) \<rparr>"

text \<open>
  The loop of \<^verbatim>\<open>clean_and_merge_paragraphs\<close>, with its two variables
  \<^verbatim>\<open>merged_blocks\<close> and \<^verbatim>\<open>current_block\<close>. The open paragraph is a copy of a block whose
  text was just read, so \<^verbatim>\<open>current_block["text"]\<close> finds its key (lemma
  \<open>merge_loop_open_text\<close> below). Blocks are values: the input blocks are taken to be
  distinct objects, as the extractor builds them.
\<close>

fun merge_loop :: "unicode_tables \<Rightarrow> block list \<Rightarrow> block option \<Rightarrow> block list \<Rightarrow> block list" where
  "merge_loop U merged cur [] =
     (case cur of None \<Rightarrow> merged | Some c \<Rightarrow> merged @ [c])"
| "merge_loop U merged cur (b # bs) =
     (let t = strip (get_or (b_text b) []) in
      if t = [] then merge_loop U merged cur bs
      else case cur of
          None \<Rightarrow> merge_loop U merged (Some b) bs
        | Some c \<Rightarrow>
            if is_new_paragraph U t b then merge_loop U (merged @ [c]) (Some b) bs
            else if should_merge_texts (get_or (b_text c) []) t
              then merge_loop U merged (Some (merge_block c b t)) bs
            else merge_loop U (merged @ [c]) (Some b) bs)"

definition clean_and_merge_paragraphs :: "unicode_tables \<Rightarrow> block list \<Rightarrow> block list" where
  "clean_and_merge_paragraphs U text_blocks =
     (if text_blocks = [] then text_blocks else merge_loop U [] None text_blocks)"

definition has_text :: "block \<Rightarrow> bool" where
  \<comment> \<open>the test of the loop on an incoming block: its trimmed text is not empty\<close>
  "has_text b \<longleftrightarrow> strip (get_or (b_text b) []) \<noteq> []"

definition nonblank :: "block \<Rightarrow> bool" where
  \<comment> \<open>the block has a text, and the text is not only whitespace\<close>
  "nonblank p = (case b_text p of None \<Rightarrow> False | Some t \<Rightarrow> strip t \<noteq> [])"

section \<open>Scenario inputs\<close>

definition span :: "ustring \<Rightarrow> bool \<Rightarrow> bool \<Rightarrow> style" where
  \<comment> \<open>a style span with its text, italic flag and bold flag\<close>
  "span t italic bold = \<lparr> s_text = Some t, s_is_italic = Some italic, s_is_bold = Some bold \<rparr>"

definition fragment :: "ustring \<Rightarrow> style list \<Rightarrow> rat \<Rightarrow> block" where
  \<comment> \<open>a block of page 1 with every key present\<close>
  "fragment t ss sz = \<lparr> b_page = Some 1, b_text = Some t, b_styles = Some ss,
                           b_avg_font_size = Some sz \<rparr>"

definition chapter_one :: block where
  "chapter_one = fragment (ustr ''Chapter One: Origins'')
                   [span (ustr ''Chapter One: Origins'') False True] 18"

definition blank_line :: block where
  \<comment> \<open>a block whose text is two spaces\<close>
  "blank_line = fragment [32, 32] [] 12"

definition story_of_courage :: block where
  "story_of_courage = fragment (ustr ''is a story of courage.'')
                        [span (ustr ''is a story of courage.'') False False] 12"

section \<open>Markup and text cleaning\<close>

text \<open>
  \<^verbatim>\<open>s.replace(old, new)\<close>: every occurrence of \<open>old\<close>, from the left, without overlap.
  \<open>replace_from\<close> counts the characters of a replaced occurrence that are still to be
  skipped. For an empty \<open>old\<close> Python puts \<open>new\<close> before every character and at the end.
\<close>

fun replace_from :: "ustring \<Rightarrow> ustring \<Rightarrow> nat \<Rightarrow> ustring \<Rightarrow> ustring" where
  "replace_from old new k [] = []"
| "replace_from old new (Suc k) (c # cs) = replace_from old new k cs"
| "replace_from old new 0 (c # cs) =
     (if startswith (c # cs) old then new @ replace_from old new (length old - 1) cs
      else c # replace_from old new 0 cs)"

definition py_replace :: "ustring \<Rightarrow> ustring \<Rightarrow> ustring \<Rightarrow> ustring" where
  "py_replace old new s =
     (if old = [] then new @ concat (map (\<lambda>c. c # new) s) else replace_from old new 0 s)"

definition italic_open :: ustring where "italic_open = ustr ''<i>''"
definition italic_close :: ustring where "italic_close = ustr ''</i>''"
definition bold_open :: ustring where "bold_open = ustr ''<b>''"
definition bold_close :: ustring where "bold_close = ustr ''</b>''"

definition italic_parts :: "style list \<Rightarrow> ustring \<Rightarrow> ustring list" where
  \<comment> \<open>the trimmed texts of the italic spans that are not empty and occur in the text\<close>
  "italic_parts styles formatted_text =
     filter (\<lambda>style_text. style_text \<noteq> [] \<and> contains formatted_text style_text)
       (map (\<lambda>s. strip (get_or (s_text s) []))
          (filter (\<lambda>s. get_or (s_is_italic s) False) styles))"

definition wrap_italic :: "ustring \<Rightarrow> ustring \<Rightarrow> ustring" where
  \<comment> \<open>one round of the marking loop\<close>
  "wrap_italic formatted_text italic_part =
     (if \<not> contains formatted_text (italic_open @ italic_part @ italic_close)
      then py_replace italic_part (italic_open @ italic_part @ italic_close) formatted_text
      else formatted_text)"

definition apply_html_formatting :: "block \<Rightarrow> ustring" where
  "apply_html_formatting text_block =
     (if get_or (b_styles text_block) [] = [] then get_or (b_text text_block) []
      else
        let text = get_or (b_text text_block) [];
            styles = get_or (b_styles text_block) [];
            has_italic = list_ex (\<lambda>s. get_or (s_is_italic s) False) styles
        in if has_italic then foldl wrap_italic text (italic_parts styles text) else text)"

text \<open>
  The substitutions of \<^verbatim>\<open>clean_text_content\<close>. \<open>collapse_ws\<close> is
  \<^verbatim>\<open>re.sub(r'\s+', ' ', text)\<close>; its flag says that the whitespace run being read has
  already been replaced. \<open>sub_ws_before P\<close> is \<^verbatim>\<open>re.sub(r'\s+([...])', r'\1', text)\<close> for
  a class \<open>P\<close> without whitespace: it holds back a whitespace run until the next character
  shows whether the run is dropped. \<open>sub_ws_after P\<close> is \<^verbatim>\<open>re.sub(r'\(\s+', '(', text)\<close>.
\<close>

fun collapse_ws :: "bool \<Rightarrow> ustring \<Rightarrow> ustring" where
  "collapse_ws in_run [] = []"
| "collapse_ws in_run (c # cs) =
     (if is_space c then (if in_run then collapse_ws True cs else 32 # collapse_ws True cs)
      else c # collapse_ws False cs)"

fun sub_ws_before :: "(nat \<Rightarrow> bool) \<Rightarrow> ustring \<Rightarrow> ustring \<Rightarrow> ustring" where
  "sub_ws_before P ws [] = ws"
| "sub_ws_before P ws (c # cs) =
     (if is_space c then sub_ws_before P (ws @ [c]) cs
      else if P c then c # sub_ws_before P [] cs
      else ws @ c # sub_ws_before P [] cs)"

fun sub_ws_after :: "(nat \<Rightarrow> bool) \<Rightarrow> bool \<Rightarrow> ustring \<Rightarrow> ustring" where
  "sub_ws_after P skipping [] = []"
| "sub_ws_after P skipping (c # cs) =
     (if skipping \<and> is_space c then sub_ws_after P True cs
      else if P c then c # sub_ws_after P True cs
      else c # sub_ws_after P False cs)"

definition clean_text_content :: "ustring \<Rightarrow> ustring" where
  "clean_text_content text0 =
     (if text0 = [] then text0
      else
        let text1 = collapse_ws False text0;
            text2 = strip text1;
            text3 = sub_ws_before is_sentence_end [] text2;
            text4 = sub_ws_before (\<lambda>c. is_comma c \<or> c = 59 \<or> c = 65307) [] text3;
            text5 = sub_ws_after (\<lambda>c. c = 40) False text4;
            text6 = sub_ws_before (\<lambda>c. c = 41) [] text5
        in text6)"

definition ah_wen_1 :: ustring where
  "ah_wen_1 = ustr ''In 1977, Ah Wen had been on the other side of history: recruited as a''"

definition ah_wen_2 :: ustring where
  "ah_wen_2 = ustr ''spy. His assignment was to infiltrate the campaign headquarters''"

definition ah_wen_3 :: ustring where
  "ah_wen_3 = ustr ''of an independent candidate.''"

definition italic_line :: "ustring \<Rightarrow> block" where
  \<comment> \<open>a block of size 12 whose one span is its whole text, italic and not bold\<close>
  "italic_line t = fragment t [span t True False] 12"

definition ah_wen_paragraph :: block where
  \<comment> \<open>what the reconstruction makes of the three italic lines\<close>
  "ah_wen_paragraph =
     fragment (ah_wen_1 @ [32] @ ah_wen_2 @ [32] @ ah_wen_3)
       [span ah_wen_1 True False, span ah_wen_2 True False, span ah_wen_3 True False] 12"

section \<open>AdvancedPDFExtractor: the classification\<close>

datatype error = KeyError

record classification_rules =
  author_keywords :: "ustring list"
  translator_keywords :: "ustring list"
  illustrator_keywords :: "ustring list"



definition default_rules :: classification_rules where
  \<comment> \<open>the keyword lists of \<^verbatim>\<open>load_classification_rules\<close> that the classification reads\<close>
  "default_rules =
     \<lparr> author_keywords = [ustr ''author'', [20316, 32773], ustr ''by''],
       translator_keywords = [ustr ''translator'', [32763, 35695], ustr ''translated by''],
       illustrator_keywords = [ustr ''illustrator'', [25554, 30059], ustr ''illustrated by''] \<rparr>"

record classified =
  Title :: ustring
  Chinese_Title :: ustring
  Category :: ustring
  Author :: ustring
  Translator :: ustring
  Illustrator :: ustring
  Detail :: ustring
  Rights_Sold :: ustring
  More_Info :: ustring
  Tags :: ustring

definition empty_record :: classified where
  "empty_record =
     \<lparr> Title = [], Chinese_Title = [], Category = [], Author = [], Translator = [],
       Illustrator = [], Detail = [], Rights_Sold = [], More_Info = [], Tags = [] \<rparr>"

subsection \<open>Title\<close>

definition is_letter :: "nat \<Rightarrow> bool" where
  \<comment> \<open>the class \<^verbatim>\<open>[A-Za-z]\<close>\<close>
  "is_letter c \<longleftrightarrow> is_upper_az c \<or> is_lower_az c"

fun count_tokens :: "bool \<Rightarrow> ustring \<Rightarrow> nat" where
  \<comment> \<open>\<^verbatim>\<open>len(text.split())\<close>; the flag says that the last character belonged to a token\<close>
  "count_tokens in_token [] = 0"
| "count_tokens in_token (c # cs) =
     (if is_space c then count_tokens False cs
      else (if in_token then 0 else 1) + count_tokens True cs)"

fun search_four_digits :: "unicode_tables \<Rightarrow> ustring \<Rightarrow> bool" where
  \<comment> \<open>\<^verbatim>\<open>re.search(r'\d{4}', text)\<close>\<close>
  "search_four_digits U [] = False"
| "search_four_digits U (c # cs) =
     ((3 \<le> length cs \<and> list_all (is_digit U) (c # take 3 cs)) \<or> search_four_digits U cs)"

definition title_shape :: "ustring \<Rightarrow> bool" where
  \<comment> \<open>\<^verbatim>\<open>re.match(r'^[A-Z][A-Za-z\s:]+$', text)\<close>; a newline at the end is in the class\<close>
  "title_shape t =
     (case t of
        [] \<Rightarrow> False
      | c # cs \<Rightarrow> is_upper_az c \<and> cs \<noteq> [] \<and>
          list_all (\<lambda>x. is_letter x \<or> is_space x \<or> x = 58) cs)"

definition is_title_like :: "ustring \<Rightarrow> bool" where
  "is_title_like t \<longleftrightarrow>
     title_shape t \<or>
     (list_ex is_letter t \<and> 2 \<le> count_tokens False t) \<or>
     (list_ex is_cjk t \<and> list_ex is_letter t)"

definition is_not_title :: "unicode_tables \<Rightarrow> ustring \<Rightarrow> bool" where
  "is_not_title U t \<longleftrightarrow>
     contains (py_lower U t) (ustr ''publisher'') \<or> contains (py_lower U t) (ustr ''isbn'') \<or>
     contains (py_lower U t) (ustr ''pages'') \<or> contains (py_lower U t) (ustr ''price'') \<or>
     startswith (py_lower U t) (ustr ''by '') \<or>
     search_four_digits U t \<or>
     count_tokens False t < 2"

text \<open>
  The loop over the five blocks of largest size. \<^verbatim>\<open>block["text"]\<close>,
  \<^verbatim>\<open>block["avg_font_size"]\<close> and \<^verbatim>\<open>block["styles"]\<close> raise \<^verbatim>\<open>KeyError\<close> on a
  missing key, the last two only when the length of the text is in range.
\<close>

fun title_candidates :: "unicode_tables \<Rightarrow> block list \<Rightarrow> error + (ustring \<times> rat \<times> block) list" where
  "title_candidates U [] = Inr []"
| "title_candidates U (b # bs) =
     (case b_text b of
        None \<Rightarrow> Inl KeyError
      | Some raw \<Rightarrow>
          let t = strip raw in
          if 10 < length t \<and> length t < 200 then
            (case b_avg_font_size b of
               None \<Rightarrow> Inl KeyError
             | Some sz \<Rightarrow>
                 (case b_styles b of
                    None \<Rightarrow> Inl KeyError
                  | Some styles \<Rightarrow>
                      let is_large_font = (14 \<le> sz);
                          has_bold = list_ex (\<lambda>s. get_or (s_is_bold s) False) styles
                      in if is_title_like t \<and> \<not> is_not_title U t \<and> (is_large_font \<or> has_bold)
                         then (case title_candidates U bs of
                                 Inl e \<Rightarrow> Inl e
                               | Inr cands \<Rightarrow>
                                   Inr ((t, if has_bold then sz + 2 else sz, b) # cands))
                         else title_candidates U bs))
          else title_candidates U bs)"

definition choose_title :: "(ustring \<times> rat \<times> block) list \<Rightarrow> ustring" where
  \<comment> \<open>the stable sort by falling score, then the first candidate, in bold markup\<close>
  "choose_title cands =
     (case sort_key (\<lambda>(t, score, b). - score) cands of
        [] \<Rightarrow> []
      | (t, score, b) # _ \<Rightarrow>
          let formatted_title = apply_html_formatting b in
          if \<not> startswith formatted_title bold_open
          then bold_open @ formatted_title @ bold_close
          else formatted_title)"

definition plain_title :: "ustring \<Rightarrow> ustring" where
  \<comment> \<open>\<^verbatim>\<open>Title.replace('<b>', '').replace('</b>', '')\<close>\<close>
  "plain_title title = py_replace bold_close [] (py_replace bold_open [] title)"

subsection \<open>Chinese title\<close>

definition publication_words :: "ustring list" where
  "publication_words = [[20986, 29256], [38913, 25976], [20729, 26684], ustr ''ISBN'']"

text \<open>
  The ratio test \<^verbatim>\<open>chinese_chars / max(total_chars, 1) > 0.6\<close> is a comparison of
  rationals here.
\<close>

definition is_chinese_title :: "ustring \<Rightarrow> ustring \<Rightarrow> bool" where
  \<comment> \<open>the two tests of the loop on the trimmed text \<open>t\<close> of a block\<close>
  "is_chinese_title title t =
     (let chinese_chars = length (filter is_cjk t);
          total_chars = length (filter (\<lambda>c. \<not> is_space c) t)
      in 3 \<le> chinese_chars
         \<and> (of_nat chinese_chars / of_nat (max total_chars 1) > (6 / 10 :: rat))
         \<and> 5 < length t \<and> length t < 100
         \<and> t \<noteq> plain_title title
         \<and> \<not> list_ex (contains t) publication_words)"

fun find_chinese_title :: "ustring \<Rightarrow> block list \<Rightarrow> error + ustring" where
  "find_chinese_title title [] = Inr []"
| "find_chinese_title title (b # bs) =
     (case b_text b of
        None \<Rightarrow> Inl KeyError
      | Some raw \<Rightarrow>
          if is_chinese_title title (strip raw)
          then Inr (clean_text_content (apply_html_formatting b))
          else find_chinese_title title bs)"

subsection \<open>Author, translator, illustrator\<close>

text \<open>
  The search \<^verbatim>\<open>re.search(rf"{keyword}[:\s]*([^,\n]+?)(?:\s*\d+\s*$|$)", line, re.IGNORECASE)\<close>,
  for a keyword that is literal text (\<open>literal_keyword\<close>). It is
  written the way the matcher proceeds: start positions from the left; at a position where
  the keyword matches, the separators \<^verbatim>\<open>[:\s]*\<close> as many as possible, then one fewer, and
  so on; the group as short as possible, one character longer each time, as long as its
  characters are in the class; and after the group the tail \<^verbatim>\<open>(?:\s*\d+\s*$|$)\<close>.
\<close>

fun ci_startswith :: "unicode_tables \<Rightarrow> ustring \<Rightarrow> ustring \<Rightarrow> bool" where
  "ci_startswith U s [] = True"
| "ci_startswith U [] (k # ks) = False"
| "ci_startswith U (c # cs) (k # ks) = (ci_eq U k c \<and> ci_startswith U cs ks)"

text \<open>
  Membership in \<^verbatim>\<open>\s*\d*\s*\<close>, by the three states of its automaton: in the leading
  whitespace, in the digits, in the trailing whitespace.
\<close>

fun ws_digits_ws :: "unicode_tables \<Rightarrow> bool \<times> bool \<times> bool \<Rightarrow> ustring \<Rightarrow> bool \<times> bool \<times> bool" where
  "ws_digits_ws U st [] = st"
| "ws_digits_ws U (a, b, c) (x # xs) =
     ws_digits_ws U (a \<and> is_space x, (a \<or> b) \<and> is_digit U x, (b \<or> c) \<and> is_space x) xs"

definition trailing_digits :: "unicode_tables \<Rightarrow> ustring \<Rightarrow> bool" where
  \<comment> \<open>the whole of \<open>r\<close> matches \<^verbatim>\<open>\s*\d+\s*\<close>\<close>
  "trailing_digits U r = (case ws_digits_ws U (True, False, False) r of (a, b, c) \<Rightarrow> b \<or> c)"

definition trailing_opt_digits :: "unicode_tables \<Rightarrow> ustring \<Rightarrow> bool" where
  \<comment> \<open>the whole of \<open>r\<close> matches \<^verbatim>\<open>\s*\d*\s*\<close>\<close>
  "trailing_opt_digits U r =
     (case ws_digits_ws U (True, False, False) r of (a, b, c) \<Rightarrow> a \<or> b \<or> c)"

definition name_tail :: "unicode_tables \<Rightarrow> ustring \<Rightarrow> bool" where
  \<comment> \<open>\<^verbatim>\<open>(?:\s*\d+\s*$|$)\<close> at the rest \<open>r\<close> of the line\<close>
  "name_tail U r \<longleftrightarrow> trailing_digits U r \<or> r = [] \<or> r = [10]"

fun lazy_group :: "(nat \<Rightarrow> bool) \<Rightarrow> (ustring \<Rightarrow> bool) \<Rightarrow> ustring \<Rightarrow> ustring \<Rightarrow> ustring option" where
  "lazy_group G ok acc [] = (if acc \<noteq> [] \<and> ok [] then Some acc else None)"
| "lazy_group G ok acc (c # cs) =
     (if acc \<noteq> [] \<and> ok (c # cs) then Some acc
      else if G c then lazy_group G ok (acc @ [c]) cs
      else None)"

fun skip_separators :: "(nat \<Rightarrow> bool) \<Rightarrow> (ustring \<Rightarrow> bool) \<Rightarrow> ustring \<Rightarrow> ustring \<Rightarrow> ustring option" where
  \<comment> \<open>the separators taken, last first, and the rest after them\<close>
  "skip_separators G ok [] r = lazy_group G ok [] r"
| "skip_separators G ok (s # ss) r =
     (case lazy_group G ok [] r of
        Some g \<Rightarrow> Some g
      | None \<Rightarrow> skip_separators G ok ss (s # r))"

definition is_separator :: "nat \<Rightarrow> bool" where
  \<comment> \<open>the class \<^verbatim>\<open>[:\s]\<close>\<close>
  "is_separator c \<longleftrightarrow> c = 58 \<or> is_space c"

fun search_name :: "unicode_tables \<Rightarrow> (nat \<Rightarrow> bool) \<Rightarrow> ustring \<Rightarrow> ustring \<Rightarrow> ustring option" where
  "search_name U G keyword [] = None"
| "search_name U G keyword (c # cs) =
     (if ci_startswith U (c # cs) keyword then
        (let r = drop (length keyword) (c # cs) in
         case skip_separators G (name_tail U) (rev (takeWhile is_separator r))
                (dropWhile is_separator r) of
           Some g \<Rightarrow> Some g
         | None \<Rightarrow> search_name U G keyword cs)
      else search_name U G keyword cs)"

text \<open>
  The cleaning of a name. \<open>cut_suffix L\<close> is \<^verbatim>\<open>re.sub(pattern, '', s)\<close> for a pattern
  that ends in \<^verbatim>\<open>\s*$\<close> and matches no empty string: the text is cut at the first position
  whose rest is in the language \<open>L\<close>. \<open>sub_end_punct\<close> is
  \<^verbatim>\<open>re.sub(r'[,.]+$', '', s)\<close>, the class with the fullwidth comma and the ideographic full
  stop; a newline that ends the string stays. \<open>all_digits\<close> is \<^verbatim>\<open>re.search(r'^\d+$', s)\<close>.
\<close>

fun cut_suffix :: "(ustring \<Rightarrow> bool) \<Rightarrow> ustring \<Rightarrow> ustring" where
  "cut_suffix L [] = []"
| "cut_suffix L (c # cs) = (if L (c # cs) then [] else c # cut_suffix L cs)"

definition is_end_punct :: "nat \<Rightarrow> bool" where
  "is_end_punct c \<longleftrightarrow> c = 44 \<or> c = 65292 \<or> c = 12290 \<or> c = 46"

fun sub_end_punct :: "ustring \<Rightarrow> ustring" where
  "sub_end_punct [] = []"
| "sub_end_punct (c # cs) =
     (if is_end_punct c \<and> list_all is_end_punct cs then []
      else if is_end_punct c \<and> cs \<noteq> [] \<and> last cs = 10 \<and> list_all is_end_punct (butlast cs)
        then [10]
      else c # sub_end_punct cs)"

definition all_digits :: "unicode_tables \<Rightarrow> ustring \<Rightarrow> bool" where
  "all_digits U s \<longleftrightarrow>
     (s \<noteq> [] \<and> list_all (is_digit U) s) \<or>
     (s \<noteq> [] \<and> last s = 10 \<and> butlast s \<noteq> [] \<and> list_all (is_digit U) (butlast s))"

definition trailing_pages :: "unicode_tables \<Rightarrow> ustring \<Rightarrow> bool" where
  \<comment> \<open>the whole of \<open>r\<close> matches \<^verbatim>\<open>\s*pages?\s*\d*\s*\<close>\<close>
  "trailing_pages U r =
     (let r1 = dropWhile is_space r in
      startswith r1 (ustr ''page'') \<and>
      (trailing_opt_digits U (drop 4 r1) \<or>
       (case drop 4 r1 of [] \<Rightarrow> False | x # r3 \<Rightarrow> x = 115 \<and> trailing_opt_digits U r3)))"

definition author_char :: "unicode_tables \<Rightarrow> nat \<Rightarrow> bool" where
  \<comment> \<open>the class \<^verbatim>\<open>[^,\n\d]\<close>\<close>
  "author_char U c \<longleftrightarrow> c \<noteq> 44 \<and> c \<noteq> 10 \<and> \<not> is_digit U c"

definition name_char :: "nat \<Rightarrow> bool" where
  \<comment> \<open>the class \<^verbatim>\<open>[^,\n]\<close>\<close>
  "name_char c \<longleftrightarrow> c \<noteq> 44 \<and> c \<noteq> 10"

fun find_author :: "unicode_tables \<Rightarrow> ustring list \<Rightarrow> ustring \<Rightarrow> ustring \<Rightarrow> ustring option" where
  "find_author U [] line_clean line_lower = None"
| "find_author U (keyword # ks) line_clean line_lower =
     (if contains line_lower keyword \<and> \<not> contains line_lower (ustr ''translator'')
         \<and> \<not> contains line_lower (ustr ''illustrator'')
      then (case search_name U (author_char U) keyword line_clean of
              None \<Rightarrow> find_author U ks line_clean line_lower
            | Some g \<Rightarrow>
                let author = sub_end_punct (cut_suffix (trailing_digits U) (strip g)) in
                if 1 < length author \<and> \<not> all_digits U author then Some author
                else find_author U ks line_clean line_lower)
      else find_author U ks line_clean line_lower)"

text \<open>
  In the translator's last substitution \<^verbatim>\<open>re.IGNORECASE\<close> stands where \<^verbatim>\<open>re.sub\<close>
  takes its \<^verbatim>\<open>count\<close>: the pattern \<^verbatim>\<open>\s*pages?\s*\d*\s*$\<close> is matched with case, at
  most twice, and it can match only once.
\<close>

fun find_translator :: "unicode_tables \<Rightarrow> ustring list \<Rightarrow> ustring \<Rightarrow> ustring \<Rightarrow> ustring option" where
  "find_translator U [] line_clean line_lower = None"
| "find_translator U (keyword # ks) line_clean line_lower =
     (if contains line_lower keyword
      then (case search_name U name_char keyword line_clean of
              None \<Rightarrow> find_translator U ks line_clean line_lower
            | Some g \<Rightarrow>
                let translator = cut_suffix (trailing_pages U)
                      (sub_end_punct (cut_suffix (trailing_digits U) (strip g))) in
                if 1 < length translator \<and> \<not> all_digits U translator then Some translator
                else find_translator U ks line_clean line_lower)
      else find_translator U ks line_clean line_lower)"

fun find_illustrator :: "unicode_tables \<Rightarrow> ustring list \<Rightarrow> ustring \<Rightarrow> ustring \<Rightarrow> ustring option" where
  "find_illustrator U [] line_clean line_lower = None"
| "find_illustrator U (keyword # ks) line_clean line_lower =
     (if contains line_lower keyword \<and> \<not> contains line_lower (ustr ''publisher'')
         \<and> \<not> contains line_lower [20986, 29256]
      then (case search_name U name_char keyword line_clean of
              None \<Rightarrow> find_illustrator U ks line_clean line_lower
            | Some g \<Rightarrow>
                let illustrator = sub_end_punct (cut_suffix (trailing_digits U) (strip g)) in
                if 1 < length illustrator \<and> \<not> all_digits U illustrator
                   \<and> \<not> contains (py_lower U illustrator) (ustr ''publish'')
                then Some illustrator
                else find_illustrator U ks line_clean line_lower)
      else find_illustrator U ks line_clean line_lower)"

text \<open>
  The loop over the formatted lines, with the three fields found so far and the set
  \<^verbatim>\<open>used_lines\<close>. A line is looked up in \<^verbatim>\<open>used_lines\<close> once, before the three fields are
  tried on it one after the other.
\<close>

record persons =
  p_author :: ustring
  p_translator :: ustring
  p_illustrator :: ustring
  used_lines :: "ustring list"

definition person_step :: "unicode_tables \<Rightarrow> classification_rules \<Rightarrow> persons \<Rightarrow> ustring \<Rightarrow> persons" where
  "person_step U rules st line =
     (let line_clean = strip line in
      if line_clean = [] \<or> line_clean \<in> set (used_lines st) then st
      else
        let line_lower = py_lower U line_clean;
            st1 = (if p_author st = [] then
                     (case find_author U (author_keywords rules) line_clean line_lower of
                        None \<Rightarrow> st
                      | Some author \<Rightarrow>
                          st\<lparr> p_author := author, used_lines := line_clean # used_lines st \<rparr>)
                   else st);
            st2 = (if p_translator st1 = [] then
                     (case find_translator U (translator_keywords rules) line_clean line_lower of
                        None \<Rightarrow> st1
                      | Some translator \<Rightarrow>
                          st1\<lparr> p_translator := translator,
                               used_lines := line_clean # used_lines st1 \<rparr>)
                   else st1);
            st3 = (if p_illustrator st2 = [] then
                     (case find_illustrator U (illustrator_keywords rules) line_clean line_lower of
                        None \<Rightarrow> st2
                      | Some illustrator \<Rightarrow>
                          st2\<lparr> p_illustrator := illustrator,
                               used_lines := line_clean # used_lines st2 \<rparr>)
                   else st2)
        in st3)"

definition find_persons :: "unicode_tables \<Rightarrow> classification_rules \<Rightarrow> ustring list \<Rightarrow> persons" where
  "find_persons U rules all_formatted_text =
     foldl (person_step U rules)
       \<lparr> p_author = [], p_translator = [], p_illustrator = [], used_lines = [] \<rparr>
       all_formatted_text"

subsection \<open>Detail, More Info, Category\<close>

definition detail_exclude_words :: "ustring list" where
  "detail_exclude_words =
     [ustr ''publisher'', ustr ''isbn'', ustr ''pages'', ustr ''price'', ustr ''format'',
      ustr ''volume'',
      [20986, 29256, 31038], [38913, 25976], [20729, 26684], [26684, 24335], [23610, 23544],
      [29256, 27425],
      ustr ''copyright'', [29256, 27402], ustr ''printed'', [21360, 21047],
      ustr ''edition'', [29256, 26412], ustr ''publication date'',
      [20986, 29256, 26085, 26399]]"

definition info_words :: "ustring list" where
  "info_words =
     [ustr ''publisher'', ustr ''isbn'', ustr ''pages'', ustr ''price'', ustr ''format'',
      [20986, 29256, 31038], [38913, 25976], [20729, 26684], [26684, 24335], [29256, 27402]]"

definition upper_acronym :: "ustring \<Rightarrow> bool" where
  \<comment> \<open>\<^verbatim>\<open>re.search(r'^[A-Z]{2,}$', s)\<close>\<close>
  "upper_acronym s \<longleftrightarrow>
     (2 \<le> length s \<and> list_all is_upper_az s) \<or>
     (s \<noteq> [] \<and> last s = 10 \<and> 2 \<le> length (butlast s) \<and> list_all is_upper_az (butlast s))"

definition unused_lines :: "ustring list \<Rightarrow> ustring list \<Rightarrow> ustring list" where
  \<comment> \<open>the trimmed lines that the two collecting loops do not skip\<close>
  "unused_lines used all_formatted_text =
     filter (\<lambda>line_clean. line_clean \<noteq> [] \<and> line_clean \<notin> set used)
       (map strip all_formatted_text)"

definition is_detail_line :: "unicode_tables \<Rightarrow> ustring \<Rightarrow> ustring \<Rightarrow> persons \<Rightarrow> ustring \<Rightarrow> bool" where
  "is_detail_line U title chinese_title ps line_clean =
     (let line_lower = py_lower U line_clean;
          is_exclude = list_ex (contains line_lower) detail_exclude_words;
          is_already_used =
            (line_clean = plain_title title \<or>
             line_clean = chinese_title \<or>
             (p_author ps \<noteq> [] \<and> contains line_clean (p_author ps)) \<or>
             (p_translator ps \<noteq> [] \<and> contains line_clean (p_translator ps)) \<or>
             (p_illustrator ps \<noteq> [] \<and> contains line_clean (p_illustrator ps)));
          is_meaningful =
            (10 < length line_clean \<and> \<not> all_digits U line_clean \<and> \<not> upper_acronym line_clean)
      in \<not> is_exclude \<and> \<not> is_already_used \<and> is_meaningful)"

fun join_space :: "ustring list \<Rightarrow> ustring" where
  \<comment> \<open>\<^verbatim>\<open>" ".join(xs)\<close>\<close>
  "join_space [] = []"
| "join_space [x] = x"
| "join_space (x # y # ys) = x @ [32] @ join_space (y # ys)"

definition detail_content :: "unicode_tables \<Rightarrow> ustring \<Rightarrow> ustring \<Rightarrow> persons \<Rightarrow> ustring list \<Rightarrow> ustring list" where
  "detail_content U title chinese_title ps all_formatted_text =
     filter (is_detail_line U title chinese_title ps)
       (unused_lines (used_lines ps) all_formatted_text)"

definition limit_detail :: "ustring list \<Rightarrow> ustring" where
  \<comment> \<open>the value of \<^verbatim>\<open>Detail\<close> for the collected lines\<close>
  "limit_detail content =
     (if content = [] then []
      else let detail_text = join_space content in
           if 500 < length detail_text then take 500 detail_text @ ustr ''...''
           else detail_text)"

definition info_content :: "unicode_tables \<Rightarrow> persons \<Rightarrow> ustring list \<Rightarrow> ustring list" where
  "info_content U ps all_formatted_text =
     filter (\<lambda>line_clean. list_ex (contains (py_lower U line_clean)) info_words)
       (unused_lines (used_lines ps) all_formatted_text)"

definition category_of :: "unicode_tables \<Rightarrow> ustring \<Rightarrow> ustring" where
  "category_of U full_text =
     (let full_text_lower = py_lower U full_text in
      if contains full_text_lower (ustr ''comic'') \<or> contains full_text_lower (ustr ''manga'')
         \<or> contains full_text [28459, 30059] then [28459, 30059, 39006]
      else if contains full_text_lower (ustr ''novel'') \<or> contains full_text [23567, 35498]
        then [23567, 35498, 39006]
      else if contains full_text_lower (ustr ''textbook'') \<or> contains full_text [25945, 31185, 26360]
        then [25945, 32946, 39006]
      else [])"

subsection \<open>smart_classify_content\<close>

definition sorted_blocks :: "block list \<Rightarrow> block list" where
  \<comment> \<open>\<^verbatim>\<open>sorted(merged_blocks, key=..., reverse=True)\<close>: by falling size, stable\<close>
  "sorted_blocks merged_blocks = sort_key (\<lambda>b. - get_or (b_avg_font_size b) 12) merged_blocks"

definition smart_classify_content ::
    "unicode_tables \<Rightarrow> classification_rules \<Rightarrow> block list \<Rightarrow> error + classified" where
  "smart_classify_content U rules text_blocks =
     (let merged_blocks = clean_and_merge_paragraphs U text_blocks;
          all_formatted_text =
            map (\<lambda>b. clean_text_content (apply_html_formatting b)) merged_blocks
      in case title_candidates U (take 5 (sorted_blocks merged_blocks)) of
           Inl e \<Rightarrow> Inl e
         | Inr cands \<Rightarrow>
             let title = choose_title cands in
             (case find_chinese_title title merged_blocks of
                Inl e \<Rightarrow> Inl e
              | Inr chinese_title \<Rightarrow>
                  let ps = find_persons U rules all_formatted_text;
                      detail = limit_detail
                        (detail_content U title chinese_title ps all_formatted_text);
                      info = join_space (info_content U ps all_formatted_text);
                      category = category_of U (join_space all_formatted_text)
                  in Inr \<lparr> Title = title, Chinese_Title = chinese_title, Category = category,
                           Author = p_author ps, Translator = p_translator ps,
                           Illustrator = p_illustrator ps, Detail = detail, Rights_Sold = [],
                           More_Info = info, Tags = [] \<rparr>))"

definition text_line :: "ustring \<Rightarrow> block" where
  \<comment> \<open>a block of size 12 whose one span is its whole text, neither italic nor bold\<close>
  "text_line t = fragment t [span t False False] 12"

definition author_and_translator_line :: ustring where
  "author_and_translator_line = ustr ''Author: John translated by Mary''"

definition translator_line :: ustring where
  "translator_line = ustr ''Translator: Chen-Yu Chang, Noax Tao and Lee-Hang Chen 23''"


definition formatted_lines :: "unicode_tables \<Rightarrow> block list \<Rightarrow> ustring list" where
  \<comment> \<open>\<^verbatim>\<open>all_formatted_text\<close> for the given input\<close>
  "formatted_lines U text_blocks =
     map (\<lambda>b. clean_text_content (apply_html_formatting b))
       (clean_and_merge_paragraphs U text_blocks)"

section \<open>Properties of the paragraph reconstruction\<close>

lemma strip_Nil_iff: "strip s = [] \<longleftrightarrow> list_all is_space s"
proof -
  have "strip s = [] \<longleftrightarrow> dropWhile is_space (rev (dropWhile is_space s)) = []"
    by (simp add: strip_def)
  also have "\<dots> \<longleftrightarrow> (\<forall>x\<in>set (dropWhile is_space s). is_space x)"
    by (simp add: dropWhile_eq_Nil_conv)
  also have "\<dots> \<longleftrightarrow> dropWhile is_space s = []"
  proof
    assume a: "\<forall>x\<in>set (dropWhile is_space s). is_space x"
    show "dropWhile is_space s = []"
    proof (rule ccontr)
      assume "dropWhile is_space s \<noteq> []"
      then have "\<not> is_space (hd (dropWhile is_space s))" "hd (dropWhile is_space s) \<in> set (dropWhile is_space s)"
        by (simp_all add: hd_dropWhile)
      with a show False by blast
    qed
  qed (auto dest: set_dropWhileD)
  also have "\<dots> \<longleftrightarrow> list_all is_space s"
    by (simp add: dropWhile_eq_Nil_conv list_all_iff)
  finally show ?thesis .
qed

lemma strip_last_not_space: "strip s \<noteq> [] \<Longrightarrow> \<not> is_space (last (strip s))"
proof -
  assume a: "strip s \<noteq> []"
  let ?d = "dropWhile is_space (rev (dropWhile is_space s))"
  from a have n: "?d \<noteq> []" by (simp add: strip_def)
  then have "\<not> is_space (hd ?d)" by (rule hd_dropWhile)
  moreover have "last (strip s) = hd ?d" using n by (simp add: strip_def last_rev)
  ultimately show ?thesis by simp
qed

lemma strip_hd_not_space: "strip s \<noteq> [] \<Longrightarrow> \<not> is_space (hd (strip s))"
proof -
  assume a: "strip s \<noteq> []"
  let ?e = "dropWhile is_space s"
  let ?d = "dropWhile is_space (rev ?e)"
  from a have n: "?d \<noteq> []" by (simp add: strip_def)
  then have en: "?e \<noteq> []" by (metis dropWhile.simps(1) rev.simps(1))
  then have h: "\<not> is_space (hd ?e)" by (rule hd_dropWhile)
  then have "\<not> is_space (last (rev ?e))" using en by (simp add: last_rev)
  have "rev ?e = takeWhile is_space (rev ?e) @ ?d" by simp
  obtain x xs where d: "?d = x # xs" using n by (cases ?d) auto
  have "hd (strip s) = last ?d" using n by (simp add: strip_def hd_rev)
  also have "\<dots> = last (rev ?e)"
    using n by (metis last_appendR takeWhile_dropWhile_id)
  also have "\<dots> = hd ?e" using en by (simp add: last_rev)
  finally show ?thesis using h by simp
qed

lemma dropWhile_hd_id: "xs \<noteq> [] \<Longrightarrow> \<not> P (hd xs) \<Longrightarrow> dropWhile P xs = xs"
  by (cases xs) auto

lemma strip_idem: "strip (strip s) = strip s"
proof (cases "strip s = []")
  case True
  have "strip [] = []" by (simp add: strip_def)
  with True show ?thesis by simp
next
  case False
  then obtain x xs where c: "strip s = x # xs" by (cases "strip s") auto
  from False have h: "\<not> is_space (hd (strip s))" and l: "\<not> is_space (last (strip s))"
    by (simp_all add: strip_hd_not_space strip_last_not_space)
  have 1: "dropWhile is_space (strip s) = strip s" using h False by (intro dropWhile_hd_id) simp_all
  have "rev (strip s) \<noteq> []" using False by simp
  moreover have "hd (rev (strip s)) = last (strip s)" using False by (simp add: hd_rev)
  ultimately have 2: "dropWhile is_space (rev (strip s)) = rev (strip s)"
    using l by (intro dropWhile_hd_id) simp_all
  show ?thesis
    unfolding strip_def[of "strip s"] 1 2 by simp
qed

lemma search_class_at_end_strip:
  "search_class_at_end P (strip s) \<longleftrightarrow> strip s \<noteq> [] \<and> P (last (strip s))"
proof (cases "strip s = []")
  case True
  then show ?thesis by (simp add: search_class_at_end_def)
next
  case False
  then have l: "\<not> is_space (last (strip s))" by (rule strip_last_not_space)
  obtain c r where r: "rev (strip s) = c # r" using False by (cases "rev (strip s)") auto
  then have "last (strip s) = c" using False by (metis last_rev list.sel(1) rev_rev_ident hd_rev)
  with l have "c \<noteq> 10" by (auto simp: is_space_def)
  with r \<open>last (strip s) = c\<close> False show ?thesis by (simp add: search_class_at_end_def)
qed

lemma strip_has_nonspace: "strip s \<noteq> [] \<Longrightarrow> list_ex (\<lambda>c. \<not> is_space c) (strip s)"
  using strip_hd_not_space[of s] by (cases "strip s") (auto simp: list_ex_iff)

lemma nonspace_strip: "list_ex (\<lambda>c. \<not> is_space c) s \<Longrightarrow> strip s \<noteq> []"
  by (auto simp: strip_Nil_iff list_ex_iff list_all_iff)

lemma smart_join_texts_cases:
  "smart_join_texts a b = butlast (strip a) @ strip b \<or>
   smart_join_texts a b = strip a @ strip b \<or>
   smart_join_texts a b = strip a @ [32] @ strip b"
  by (simp add: smart_join_texts_def Let_def)

lemma smart_join_texts_nonblank:
  assumes "strip b \<noteq> []"
  shows "strip (smart_join_texts a b) \<noteq> []"
proof -
  from assms have "list_ex (\<lambda>c. \<not> is_space c) (strip b)" by (rule strip_has_nonspace)
  then have "list_ex (\<lambda>c. \<not> is_space c) (smart_join_texts a b)"
    using smart_join_texts_cases[of a b] by (auto simp: list_ex_iff)
  then show ?thesis by (rule nonspace_strip)
qed

lemma merge_block_nonblank: "strip t \<noteq> [] \<Longrightarrow> nonblank (merge_block c b t)"
  by (simp add: nonblank_def merge_block_def smart_join_texts_nonblank)

lemma nonblank_of_read: "strip (get_or (b_text b) []) \<noteq> [] \<Longrightarrow> nonblank b"
  by (cases "b_text b") (auto simp: nonblank_def get_or_def strip_def)

lemma merge_loop_nonblank:
  "list_all nonblank merged \<Longrightarrow> (case cur of None \<Rightarrow> True | Some c \<Rightarrow> nonblank c) \<Longrightarrow>
   list_all nonblank (merge_loop U merged cur bs)"
proof (induction bs arbitrary: merged cur)
  case Nil
  then show ?case by (cases cur) simp_all
next
  case (Cons b bs)
  let ?t = "strip (get_or (b_text b) [])"
  show ?case
  proof (cases "?t = []")
    case True
    then show ?thesis using Cons by simp
  next
    case False
    then have nb: "nonblank b" by (rule nonblank_of_read)
    have st: "strip ?t \<noteq> []" using False by (simp add: strip_idem)
    show ?thesis
    proof (cases cur)
      case None
      then show ?thesis using False nb Cons.prems(1) by (simp add: Cons.IH)
    next
      case (Some c)
      then have nc: "nonblank c" using Cons.prems(2) by simp
      have "nonblank (merge_block c b ?t)" using st by (rule merge_block_nonblank)
      then show ?thesis using Some False nb nc Cons.prems(1)
        by (simp add: Cons.IH Let_def)
    qed
  qed
qed

lemma merge_loop_length:
  "length (merge_loop U merged cur bs) \<le>
     length merged + (case cur of None \<Rightarrow> 0 | Some c \<Rightarrow> 1) + length bs"
proof (induction bs arbitrary: merged cur)
  case Nil
  then show ?case by (cases cur) simp_all
next
  case (Cons b bs)
  let ?t = "strip (get_or (b_text b) [])"
  show ?case
  proof (cases "?t = []")
    case True
    have "length (merge_loop U merged cur bs) \<le>
      length merged + (case cur of None \<Rightarrow> 0 | Some c \<Rightarrow> 1) + length bs" by (rule Cons.IH)
    then show ?thesis using True by simp
  next
    case False
    show ?thesis
    proof (cases cur)
      case None
      have "length (merge_loop U merged (Some b) bs) \<le> length merged + 1 + length bs"
        using Cons.IH[of merged "Some b"] by simp
      then show ?thesis using None False by simp
    next
      case (Some c)
      have 1: "length (merge_loop U (merged @ [c]) (Some b) bs) \<le> length merged + 2 + length bs"
        using Cons.IH[of "merged @ [c]" "Some b"] by simp
      have 2: "length (merge_loop U merged (Some (merge_block c b ?t)) bs) \<le> length merged + 1 + length bs"
        using Cons.IH[of merged "Some (merge_block c b ?t)"] by simp
      show ?thesis using Some False 1 2 by (simp add: Let_def)
    qed
  qed
qed

lemma merge_loop_skips_blank:
  "merge_loop U merged cur (filter has_text bs) = merge_loop U merged cur bs"
proof (induction bs arbitrary: merged cur)
  case Nil
  then show ?case by simp
next
  case (Cons b bs)
  show ?case
  proof (cases "has_text b")
    case False
    then have "strip (get_or (b_text b) []) = []" by (simp add: has_text_def)
    with False show ?thesis by (simp add: Cons.IH)
  next
    case True
    then have "strip (get_or (b_text b) []) \<noteq> []" by (simp add: has_text_def)
    with True show ?thesis
      by (cases cur) (simp_all add: Cons.IH Let_def)
  qed
qed

lemma clean_and_merge_paragraphs_loop:
  "clean_and_merge_paragraphs U bs = merge_loop U [] None bs"
  by (simp add: clean_and_merge_paragraphs_def)

text \<open>
  Claim C9. For every list of blocks, \<^verbatim>\<open>clean_and_merge_paragraphs\<close> returns at most as
  many paragraphs as there are blocks, and every paragraph it returns has a text that is
  not empty and not only whitespace. Blocks whose text is empty or only whitespace are
  skipped: the result is the result for the list without them, so they neither appear in
  a paragraph nor start or close one, and there are at most as many paragraphs as blocks
  with a text.
\<close>

theorem clean_and_merge_paragraphs_skips_blank:
  "length (clean_and_merge_paragraphs U text_blocks) \<le> length text_blocks \<and>
   list_all (\<lambda>p. \<exists>t. b_text p = Some t \<and> strip t \<noteq> []) (clean_and_merge_paragraphs U text_blocks) \<and>
   clean_and_merge_paragraphs U (filter has_text text_blocks) =
     clean_and_merge_paragraphs U text_blocks \<and>
   length (clean_and_merge_paragraphs U text_blocks) \<le> length (filter has_text text_blocks)"
proof -
  have nb: "list_all nonblank (merge_loop U [] None text_blocks)"
    by (rule merge_loop_nonblank) simp_all
  then have 2: "list_all (\<lambda>p. \<exists>t. b_text p = Some t \<and> strip t \<noteq> [])
      (clean_and_merge_paragraphs U text_blocks)"
    unfolding clean_and_merge_paragraphs_loop
    by (auto simp: list_all_iff nonblank_def split: option.splits)
  have 3: "clean_and_merge_paragraphs U (filter has_text text_blocks) =
      clean_and_merge_paragraphs U text_blocks"
    unfolding clean_and_merge_paragraphs_loop by (rule merge_loop_skips_blank)
  have "length (merge_loop U [] None (filter has_text text_blocks)) \<le>
      length (filter has_text text_blocks)"
    using merge_loop_length[of U "[]" None "filter has_text text_blocks"] by simp
  then have 4: "length (clean_and_merge_paragraphs U text_blocks) \<le>
      length (filter has_text text_blocks)"
    using 3 by (simp add: clean_and_merge_paragraphs_loop)
  have "length (filter has_text text_blocks) \<le> length text_blocks" by simp
  with 4 have 1: "length (clean_and_merge_paragraphs U text_blocks) \<le> length text_blocks"
    by (rule order_trans)
  from 1 2 3 4 show ?thesis by blast
qed

theorem clean_and_merge_paragraphs_skips_blank_witness:
  "filter has_text [chapter_one, blank_line, story_of_courage] = [chapter_one, story_of_courage] \<and>
   clean_and_merge_paragraphs basic_latin [chapter_one, blank_line, story_of_courage] =
     clean_and_merge_paragraphs basic_latin [chapter_one, story_of_courage] \<and>
   length (clean_and_merge_paragraphs basic_latin [chapter_one, blank_line, story_of_courage]) \<le> 2"
proof -
  have f: "filter has_text [chapter_one, blank_line, story_of_courage] =
      [chapter_one, story_of_courage]"
    by (simp add: has_text_def chapter_one_def blank_line_def story_of_courage_def fragment_def
        get_or_def strip_def ustr_def is_space_def)
  from clean_and_merge_paragraphs_skips_blank
         [of basic_latin "[chapter_one, blank_line, story_of_courage]"]
  show ?thesis unfolding f by simp
qed

subsection \<open>Evaluation of the scenarios\<close>

lemmas char_class_defs = is_space_def is_upper_az_def is_lower_az_def is_cjk_def lower_az_def
  is_digit_def is_sentence_end_def is_comma_def

lemmas text_processor_defs = ustr_def strip_def endswith_def search_class_at_end_def
  match_class_at_start_def get_or_def latin_heading_def cjk_heading_def numbered_marker_def
  chapter_keywords_def is_new_paragraph_def should_merge_texts_def smart_join_texts_def
  merge_block_def clean_and_merge_paragraphs_def span_def fragment_def Let_def

lemma scenario_a_eval:
  "clean_and_merge_paragraphs U [chapter_one, story_of_courage] =
     [fragment (ustr ''Chapter One: Origins is a story of courage.'')
        [span (ustr ''Chapter One: Origins'') False True,
         span (ustr ''is a story of courage.'') False False] 15]"
  by (simp add: chapter_one_def story_of_courage_def text_processor_defs char_class_defs)

lemma scenario_a_trigger:
  "is_new_paragraph U (ustr ''Chapter One: Origins'') chapter_one"
  by (simp add: chapter_one_def text_processor_defs)

lemma scenario_a_not_trigger:
  "\<not> is_new_paragraph U (ustr ''is a story of courage.'') story_of_courage"
  by (simp add: story_of_courage_def text_processor_defs char_class_defs)

subsection \<open>Scenario A\<close>

text \<open>
  Claim C3, as amended. For the two blocks "Chapter One: Origins" (size 18, a bold span) and
  "is a story of courage." (size 12, not bold), the first is a new-paragraph trigger, the
  second is not, and the merge decision for the second is to merge, since it starts with a
  lowercase letter: the reconstruction returns one paragraph, with the text
  "Chapter One: Origins is a story of courage.", both spans and the size 15.
\<close>

theorem scenario_a_is_one_paragraph:
  "is_new_paragraph U (strip (ustr ''Chapter One: Origins'')) chapter_one \<and>
   \<not> is_new_paragraph U (strip (ustr ''is a story of courage.'')) story_of_courage \<and>
   should_merge_texts (ustr ''Chapter One: Origins'') (ustr ''is a story of courage.'') \<and>
   clean_and_merge_paragraphs U [chapter_one, story_of_courage] =
     [fragment (ustr ''Chapter One: Origins is a story of courage.'')
        [span (ustr ''Chapter One: Origins'') False True,
         span (ustr ''is a story of courage.'') False False] 15]"
  by (simp add: chapter_one_def story_of_courage_def text_processor_defs char_class_defs)

theorem scenario_a_is_one_paragraph_witness:
  "length (clean_and_merge_paragraphs basic_latin [chapter_one, story_of_courage]) = 1"
  using scenario_a_is_one_paragraph [of basic_latin] by simp

text \<open>
  The claim as stated, two paragraphs for this input, does not hold.
\<close>

theorem scenario_a_two_paragraphs_counterexample:
  "length (clean_and_merge_paragraphs basic_latin [chapter_one, story_of_courage]) \<noteq> 2"
  by (simp add: chapter_one_def story_of_courage_def text_processor_defs char_class_defs)

subsection \<open>The merge decision and the join\<close>

lemma endswith_single: "endswith s [c] \<longleftrightarrow> s \<noteq> [] \<and> last s = c"
proof (cases "rev s")
  case Nil
  then show ?thesis by (simp add: endswith_def)
next
  case (Cons x xs)
  then have "s = rev xs @ [x]" by (metis rev.simps(2) rev_rev_ident)
  then show ?thesis using Cons by (auto simp: endswith_def)
qed

lemma search_class_at_end_trimmed:
  "strip s = s \<Longrightarrow> search_class_at_end P s \<longleftrightarrow> s \<noteq> [] \<and> P (last s)"
  using search_class_at_end_strip[of P s] by simp

lemma match_class_at_start_hd:
  "match_class_at_start P s \<longleftrightarrow> s \<noteq> [] \<and> P (hd s)"
  by (cases s) (simp_all add: match_class_at_start_def)

text \<open>
  Claim C2, as amended. Let the open paragraph's text, trimmed, not end in sentence-terminal
  punctuation. If the incoming text starts with an uppercase Latin letter, the merge
  decision is to merge exactly when the open text ends in a comma, a fullwidth comma or a
  hyphen, or is shorter than 30 characters, or contains no sentence-terminal punctuation.
  An incoming text that starts with a CJK ideograph is not covered by that rule: it is
  merged exactly when the open text ends in a comma, a fullwidth comma or a hyphen, or both
  texts are shorter than 50 characters.
\<close>

theorem should_merge_texts_before_capital:
  "\<not> search_class_at_end is_sentence_end (strip t1) \<longrightarrow>
     (match_class_at_start is_upper_az (strip t2) \<longrightarrow>
        (should_merge_texts t1 t2 \<longleftrightarrow>
           search_class_at_end (\<lambda>c. is_comma c \<or> c = 45) (strip t1)
           \<or> length (strip t1) < 30
           \<or> \<not> list_ex is_sentence_end (strip t1))) \<and>
     (match_class_at_start is_cjk (strip t2) \<longrightarrow>
        (should_merge_texts t1 t2 \<longleftrightarrow>
           search_class_at_end (\<lambda>c. is_comma c \<or> c = 45) (strip t1)
           \<or> (length (strip t1) < 50 \<and> length (strip t2) < 50)))"
proof -
  have cjk: "match_class_at_start is_cjk (strip t2) \<Longrightarrow>
      \<not> match_class_at_start is_upper_az (strip t2) \<and> \<not> match_class_at_start is_lower_az (strip t2)"
    by (auto simp: match_class_at_start_hd is_cjk_def is_upper_az_def is_lower_az_def)
  have sp: "\<And>Q. search_class_at_end (\<lambda>c. Q c \<or> is_space c) (strip t1) \<longleftrightarrow> search_class_at_end Q (strip t1)"
    using strip_last_not_space[of t1] by (auto simp: search_class_at_end_strip)
  have a: "search_class_at_end (\<lambda>c. is_comma c \<or> c = 45 \<or> is_space c) (strip t1)
      \<longleftrightarrow> search_class_at_end (\<lambda>c. is_comma c \<or> c = 45) (strip t1)"
    using sp[of "\<lambda>c. is_comma c \<or> c = 45"] by (simp add: disj_assoc)
  have b: "search_class_at_end (\<lambda>c. c = 45 \<or> is_comma c \<or> is_space c) (strip t1)
      \<longleftrightarrow> search_class_at_end (\<lambda>c. is_comma c \<or> c = 45) (strip t1)"
    using strip_last_not_space[of t1] by (auto simp: search_class_at_end_strip)
  show ?thesis
    using cjk by (auto simp: should_merge_texts_def Let_def a b)
qed

theorem should_merge_texts_before_capital_witness:
  "\<not> search_class_at_end is_sentence_end (strip (ustr ''as a spy, he met Ah Yu. The two young''))
   \<and> match_class_at_start is_upper_az (strip (ustr ''Men engaged''))
   \<and> \<not> should_merge_texts (ustr ''as a spy, he met Ah Yu. The two young'') (ustr ''Men engaged'')
   \<and> should_merge_texts (ustr ''A. b'') (ustr ''Hello'')"
  using should_merge_texts_before_capital
          [of "ustr ''as a spy, he met Ah Yu. The two young''" "ustr ''Men engaged''"]
        should_merge_texts_before_capital [of "ustr ''A. b''" "ustr ''Hello''"]
  by (simp add: text_processor_defs char_class_defs)

text \<open>
  The claim as stated fails at the open text "A. b" and the incoming text "Hello": the open
  text has a full stop inside and no comma at its end, and the two are merged.
\<close>

theorem should_merge_texts_claimed_rule_counterexample:
  "\<not> search_class_at_end is_sentence_end (strip (ustr ''A. b'')) \<and>
   match_class_at_start (\<lambda>c. is_upper_az c \<or> is_cjk c) (strip (ustr ''Hello'')) \<and>
   \<not> (should_merge_texts (ustr ''A. b'') (ustr ''Hello'') \<longleftrightarrow>
        search_class_at_end is_comma (strip (ustr ''A. b''))
        \<or> \<not> list_ex is_sentence_end (strip (ustr ''A. b'')))"
  by (simp add: text_processor_defs char_class_defs)

text \<open>
  Claim C6. For two blocks whose texts are trimmed, the second not empty, where the first
  text ends with a hyphen and the second block is not a new-paragraph trigger, the
  reconstruction of the two returns one paragraph, whose text is the first text without
  its last hyphen followed directly by the second text, with no space between them.
\<close>

theorem hyphen_join_without_space:
  assumes "b_text F1 = Some t1" and "b_text F2 = Some t2"
    and "strip t1 = t1" and "strip t2 = t2" and "t2 \<noteq> []"
    and "endswith t1 [45]"
    and "\<not> is_new_paragraph U t2 F2"
  shows "\<exists>p. clean_and_merge_paragraphs U [F1, F2] = [p] \<and> b_text p = Some (butlast t1 @ t2)"
proof -
  from assms(6) have ne: "t1 \<noteq> []" and l: "last t1 = 45" by (simp_all add: endswith_single)
  have e: "\<And>P. search_class_at_end P t1 \<longleftrightarrow> P 45"
    using assms(3) ne l by (simp add: search_class_at_end_trimmed)
  have m: "should_merge_texts t1 t2"
    using assms(3,4) by (simp add: should_merge_texts_def Let_def e is_sentence_end_def)
  have j: "smart_join_texts t1 t2 = butlast t1 @ t2"
    using assms(3,4,6) by (simp add: smart_join_texts_def Let_def)
  show ?thesis
    using assms(1,2,3,4,5,7) ne m j
    by (simp add: clean_and_merge_paragraphs_def get_or_def Let_def merge_block_def)
qed

theorem hyphen_join_without_space_witness:
  "\<exists>p. clean_and_merge_paragraphs basic_latin
          [fragment (ustr ''the campaign head-'') [] 12, fragment (ustr ''quarters of'') [] 12] = [p]
        \<and> b_text p = Some (ustr ''the campaign headquarters of'')"
proof -
  have "\<exists>p. clean_and_merge_paragraphs basic_latin
          [fragment (ustr ''the campaign head-'') [] 12, fragment (ustr ''quarters of'') [] 12] = [p]
        \<and> b_text p = Some (butlast (ustr ''the campaign head-'') @ ustr ''quarters of'')"
    by (rule hyphen_join_without_space)
       (simp_all add: text_processor_defs char_class_defs)
  then show ?thesis by (simp add: ustr_def)
qed

section \<open>Properties of the markup formatter\<close>

lemmas markup_defs = py_replace_def italic_open_def italic_close_def bold_open_def bold_close_def
  italic_parts_def wrap_italic_def apply_html_formatting_def clean_text_content_def

lemmas scenario_b_defs = ah_wen_1_def ah_wen_2_def ah_wen_3_def italic_line_def ah_wen_paragraph_def



lemma scenario_b_clean:
  "clean_text_content (italic_open @ ah_wen_1 @ italic_close @ [32] @
     italic_open @ ah_wen_2 @ italic_close @ [32] @
     italic_open @ ah_wen_3 @ italic_close) =
     italic_open @ ah_wen_1 @ italic_close @ [32] @
     italic_open @ ah_wen_2 @ italic_close @ [32] @
     italic_open @ ah_wen_3 @ italic_close"
  by (simp add: scenario_b_defs markup_defs text_processor_defs char_class_defs)




section \<open>Properties of the classification\<close>

lemma limit_detail_length: "length (limit_detail content) \<le> 503"
  by (simp add: limit_detail_def Let_def ustr_def)

lemma smart_classify_content_Detail:
  assumes "smart_classify_content U rules text_blocks = Inr r"
  shows "Detail r = limit_detail
           (detail_content U (Title r) (Chinese_Title r)
              (find_persons U rules
                 (map (\<lambda>b. clean_text_content (apply_html_formatting b))
                    (clean_and_merge_paragraphs U text_blocks)))
              (map (\<lambda>b. clean_text_content (apply_html_formatting b))
                 (clean_and_merge_paragraphs U text_blocks)))"
  using assms
  by (auto simp: smart_classify_content_def Let_def split: sum.splits)

text \<open>
  Claim C7. Whenever \<^verbatim>\<open>smart_classify_content\<close> returns a record, its \<^verbatim>\<open>Detail\<close> has at most
  503 characters: it is the space-joined text of the collected lines, cut to its first 500
  characters and followed by "..." when that text is longer than 500 characters, and
  unchanged otherwise.
\<close>

theorem detail_at_most_503:
  assumes "smart_classify_content U rules text_blocks = Inr r"
  shows "length (Detail r) \<le> 503 \<and>
    (let lines = map (\<lambda>b. clean_text_content (apply_html_formatting b))
                   (clean_and_merge_paragraphs U text_blocks);
         detail_text = join_space
           (detail_content U (Title r) (Chinese_Title r) (find_persons U rules lines) lines)
     in Detail r = (if 500 < length detail_text then take 500 detail_text @ ustr ''...''
                    else detail_text))"
proof -
  let ?lines = "map (\<lambda>b. clean_text_content (apply_html_formatting b))
                   (clean_and_merge_paragraphs U text_blocks)"
  let ?content = "detail_content U (Title r) (Chinese_Title r) (find_persons U rules ?lines) ?lines"
  have d: "Detail r = limit_detail ?content"
    using assms by (rule smart_classify_content_Detail)
  have "limit_detail ?content =
      (if 500 < length (join_space ?content) then take 500 (join_space ?content) @ ustr ''...''
       else join_space ?content)"
    by (cases "?content = []") (simp_all add: limit_detail_def Let_def)
  with d limit_detail_length[of ?content] show ?thesis by (simp add: Let_def)
qed

lemmas name_defs = name_char_def author_char_def trailing_pages_def all_digits_def
  is_end_punct_def is_separator_def name_tail_def trailing_opt_digits_def trailing_digits_def
  ci_eq_def default_rules_def

lemma translator_line_strip: "strip translator_line = translator_line"
  by (simp add: translator_line_def ustr_def strip_def is_space_def)

lemma translator_line_lower:
  "py_lower U translator_line =
     ustr ''translator: chen-yu chang, noax tao and lee-hang chen 23''"
  by (simp add: translator_line_def py_lower_def ustr_def lower_az_def is_upper_az_def)

lemma translator_line_author:
  "find_author U (author_keywords default_rules) translator_line (py_lower U translator_line) = None"
  unfolding translator_line_lower by (simp add: default_rules_def ustr_def)

lemma translator_line_search:
  "search_name U name_char (ustr ''translator'') translator_line = None"
  by (simp add: translator_line_def name_defs ustr_def char_class_defs)

lemma translator_line_translator:
  "find_translator U (translator_keywords default_rules) translator_line (py_lower U translator_line) = None"
  unfolding translator_line_lower using translator_line_search [of U]
  by (simp add: default_rules_def ustr_def)

lemma translator_line_illustrator:
  "find_illustrator U (illustrator_keywords default_rules) translator_line (py_lower U translator_line) = None"
  unfolding translator_line_lower by (simp add: default_rules_def ustr_def)

lemma translator_line_nonempty: "translator_line \<noteq> []"
  by (simp add: translator_line_def ustr_def)

lemma translator_persons:
  "find_persons U default_rules [translator_line] =
     \<lparr> p_author = [], p_translator = [], p_illustrator = [], used_lines = [] \<rparr>"
  by (simp add: find_persons_def person_step_def Let_def translator_line_strip
      translator_line_nonempty translator_line_author translator_line_translator
      translator_line_illustrator)

lemma text_line_merged:
  "strip t = t \<Longrightarrow> t \<noteq> [] \<Longrightarrow> clean_and_merge_paragraphs U [text_line t] = [text_line t]"
  by (simp add: clean_and_merge_paragraphs_def text_line_def fragment_def get_or_def)

lemma text_line_formatted: "apply_html_formatting (text_line t) = t"
  by (simp add: apply_html_formatting_def text_line_def fragment_def span_def get_or_def)

lemma text_line_no_title:
  "title_candidates U (take 5 (sorted_blocks [text_line t])) = Inr []"
  by (simp add: sorted_blocks_def text_line_def fragment_def span_def get_or_def Let_def)

lemma choose_title_none: "choose_title [] = []"
  by (simp add: choose_title_def)

lemma plain_title_none: "plain_title [] = []"
  by (simp add: plain_title_def py_replace_def bold_open_def bold_close_def ustr_def)

lemma translator_line_clean: "clean_text_content translator_line = translator_line"
  by (simp add: translator_line_def clean_text_content_def ustr_def strip_def Let_def
      is_space_def is_sentence_end_def is_comma_def)

lemma translator_line_no_chinese_title:
  "find_chinese_title [] [text_line translator_line] = Inr []"
  by (simp add: text_line_def fragment_def translator_line_strip)
     (simp add: is_chinese_title_def translator_line_def ustr_def is_cjk_def)

lemma translator_line_category: "category_of U translator_line = []"
  unfolding category_of_def Let_def translator_line_lower
  by (simp add: translator_line_def ustr_def)

lemma translator_line_detail:
  "is_detail_line U [] [] \<lparr> p_author = [], p_translator = [], p_illustrator = [], used_lines = [] \<rparr>
     translator_line"
  unfolding is_detail_line_def Let_def translator_line_lower plain_title_none
  by (simp add: translator_line_def ustr_def detail_exclude_words_def all_digits_def
      upper_acronym_def is_digit_def is_upper_az_def)

lemma translator_line_info:
  "\<not> list_ex (contains (py_lower U translator_line)) info_words"
  unfolding translator_line_lower by (simp add: ustr_def info_words_def)

lemma translator_line_length: "length translator_line = 56"
  by (simp add: translator_line_def ustr_def)

lemma translator_line_classified:
  "smart_classify_content U default_rules [text_line translator_line] =
     Inr (empty_record\<lparr> Detail := translator_line \<rparr>)"
  by (simp add: smart_classify_content_def Let_def text_line_merged text_line_formatted
      text_line_no_title choose_title_none translator_line_strip translator_line_nonempty
      translator_line_clean translator_line_no_chinese_title translator_persons
      translator_line_category translator_line_detail translator_line_info
      detail_content_def info_content_def unused_lines_def limit_detail_def
      translator_line_length empty_record_def del: find_chinese_title.simps)

lemma author_line_strip: "strip author_and_translator_line = author_and_translator_line"
  by (simp add: author_and_translator_line_def ustr_def strip_def is_space_def)

lemma author_line_nonempty: "author_and_translator_line \<noteq> []"
  by (simp add: author_and_translator_line_def ustr_def)

lemma author_line_lower:
  "py_lower U author_and_translator_line = ustr ''author: john translated by mary''"
  by (simp add: author_and_translator_line_def py_lower_def ustr_def lower_az_def is_upper_az_def)

lemma author_line_search_author:
  "search_name U (author_char U) (ustr ''author'') author_and_translator_line =
     Some (ustr ''John translated by Mary'')"
  by (simp add: author_and_translator_line_def name_defs ustr_def char_class_defs)

lemma author_line_search_translator:
  "search_name U name_char (ustr ''translated by'') author_and_translator_line =
     Some (ustr ''Mary'')"
  by (simp add: author_and_translator_line_def name_defs ustr_def char_class_defs)

lemma author_line_author:
  "find_author U (author_keywords default_rules) author_and_translator_line
     (py_lower U author_and_translator_line) = Some (ustr ''John translated by Mary'')"
  unfolding author_line_lower using author_line_search_author [of U]
  by (simp add: default_rules_def ustr_def name_defs char_class_defs strip_def)

lemma author_line_translator:
  "find_translator U (translator_keywords default_rules) author_and_translator_line
     (py_lower U author_and_translator_line) = Some (ustr ''Mary'')"
  unfolding author_line_lower using author_line_search_translator [of U]
  by (simp add: default_rules_def ustr_def name_defs char_class_defs strip_def)

lemma author_line_illustrator:
  "find_illustrator U (illustrator_keywords default_rules) author_and_translator_line
     (py_lower U author_and_translator_line) = None"
  unfolding author_line_lower by (simp add: default_rules_def ustr_def)

lemma author_line_persons:
  "find_persons U default_rules [author_and_translator_line] =
     \<lparr> p_author = ustr ''John translated by Mary'', p_translator = ustr ''Mary'',
       p_illustrator = [],
       used_lines = [author_and_translator_line, author_and_translator_line] \<rparr>"
  by (simp add: find_persons_def person_step_def Let_def author_line_strip
      author_line_nonempty author_line_author author_line_translator
      author_line_illustrator ustr_def)

lemma author_line_clean: "clean_text_content author_and_translator_line = author_and_translator_line"
  by (simp add: author_and_translator_line_def clean_text_content_def ustr_def strip_def Let_def
      is_space_def is_sentence_end_def is_comma_def)

lemma author_line_no_chinese_title:
  "find_chinese_title [] [text_line author_and_translator_line] = Inr []"
  by (simp add: text_line_def fragment_def author_line_strip)
     (simp add: is_chinese_title_def author_and_translator_line_def ustr_def is_cjk_def)

lemma author_line_category: "category_of U author_and_translator_line = []"
  unfolding category_of_def Let_def author_line_lower
  by (simp add: author_and_translator_line_def ustr_def)

lemma author_line_classified:
  "smart_classify_content U default_rules [text_line author_and_translator_line] =
     Inr (empty_record\<lparr> Author := ustr ''John translated by Mary'', Translator := ustr ''Mary'' \<rparr>)"
  by (simp add: smart_classify_content_def Let_def text_line_merged text_line_formatted
      text_line_no_title choose_title_none author_line_strip author_line_nonempty
      author_line_clean author_line_no_chinese_title author_line_persons
      author_line_category
      detail_content_def info_content_def unused_lines_def limit_detail_def
      empty_record_def del: find_chinese_title.simps)


lemma limit_detail_cuts:
  "limit_detail [replicate 600 120] = replicate 500 120 @ ustr ''...''"
  by (simp add: limit_detail_def)

theorem detail_at_most_503_witness:
  "smart_classify_content basic_latin default_rules [text_line translator_line] =
     Inr (empty_record\<lparr> Detail := translator_line \<rparr>) \<and>
   length (Detail (empty_record\<lparr> Detail := translator_line \<rparr>)) \<le> 503"
  using detail_at_most_503 [OF translator_line_classified [of basic_latin]]
        translator_line_classified [of basic_latin]
  by simp

lemma lee_hang_chen_search:
  "search_name U name_char (ustr ''translator'') (ustr ''Translator: Lee-Hang Chen 23'') =
     Some (ustr ''Lee-Hang Chen'')"
  by (simp add: name_defs ustr_def char_class_defs)

text \<open>
  Claim C4, the code at the line of scenario C. The pattern of the translator field finds
  nothing in "Translator: Chen-Yu Chang, Noax Tao and Lee-Hang Chen 23", because its group
  \<^verbatim>\<open>[^,\n]+?\<close> cannot pass the comma and the pattern must reach the end of the line: the
  record has an empty \<^verbatim>\<open>Translator\<close> and the whole line in \<^verbatim>\<open>Detail\<close>. Without a comma the
  name is found and its page number removed.
\<close>

theorem translator_with_commas_not_found:
  "search_name U name_char (ustr ''translator'') translator_line = None \<and>
   formatted_lines U [text_line translator_line] = [translator_line] \<and>
   smart_classify_content U default_rules [text_line translator_line] =
     Inr (empty_record\<lparr> Detail := translator_line \<rparr>) \<and>
   search_name U name_char (ustr ''translator'') (ustr ''Translator: Lee-Hang Chen 23'') =
     Some (ustr ''Lee-Hang Chen'')"
  using translator_line_search [of U] translator_line_classified [of U]
        lee_hang_chen_search [of U]
  by (simp add: formatted_lines_def text_line_merged text_line_formatted translator_line_strip
      translator_line_nonempty translator_line_clean)

theorem translator_with_commas_not_found_witness:
  "\<exists>r. smart_classify_content basic_latin default_rules [text_line translator_line] = Inr r \<and>
       Translator r = [] \<and> Detail r = translator_line"
  using translator_with_commas_not_found [of basic_latin]
  by (simp add: empty_record_def)

text \<open>
  Claim C1, the code at one line that names an author and a translator. The input has the
  single formatted line "Author: John translated by Mary"; the loop looks the line up in
  \<^verbatim>\<open>used_lines\<close> before it tries the three fields, and then takes both \<^verbatim>\<open>Author\<close> and
  \<^verbatim>\<open>Translator\<close> from it.
\<close>

theorem one_line_feeds_two_person_fields:
  "formatted_lines U [text_line author_and_translator_line] = [author_and_translator_line] \<and>
   smart_classify_content U default_rules [text_line author_and_translator_line] =
     Inr (empty_record\<lparr> Author := ustr ''John translated by Mary'',
                        Translator := ustr ''Mary'' \<rparr>)"
  using author_line_classified [of U]
  by (simp add: formatted_lines_def text_line_merged text_line_formatted author_line_strip
      author_line_nonempty author_line_clean)

theorem one_line_feeds_two_person_fields_witness:
  "\<exists>r. smart_classify_content basic_latin default_rules [text_line author_and_translator_line] = Inr r \<and>
       Author r \<noteq> [] \<and> Translator r \<noteq> [] \<and>
       length (formatted_lines basic_latin [text_line author_and_translator_line]) = 1"
  using one_line_feeds_two_person_fields [of basic_latin]
  by (simp add: empty_record_def ustr_def)




















end
